theory Spec2Isabelle
  imports Complex_Main "HOL-Library.Multiset" "HOL-Library.Char_ord" "HOL-Library.List_Lexorder"
    "HOL-Library.AList"
begin

section \<open>Strings\<close>

text \<open>
  Names are modelled as \<open>string\<close>: each \<open>char\<close> stands for one UTF-16 code unit in the
  range 0..255 (ASCII and Latin-1), which covers release names as trackers write them.
  The order on strings is the lexicographic order on code units, the order the default
  \<^verbatim>\<open>Array.prototype.sort\<close> uses on strings.
\<close>

definition is_sep :: "char \<Rightarrow> bool" where
  \<comment> \<open>the character class \<^verbatim>\<open>[.\s-]\<close>: dot, hyphen, and the white space of \<^verbatim>\<open>\s\<close> below 256\<close>
  "is_sep c \<longleftrightarrow>
     c = CHR ''.'' \<or> c = CHR ''-'' \<or> (of_char c :: nat) \<in> {9, 10, 11, 12, 13, 32, 160}"

definition lower_char :: "char \<Rightarrow> char" where
  \<comment> \<open>\<^verbatim>\<open>toLowerCase\<close> on one code unit: A-Z and the Latin-1 capitals (not the sign at 215)\<close>
  "lower_char c =
     (let n = (of_char c :: nat)
      in if (65 \<le> n \<and> n \<le> 90) \<or> (192 \<le> n \<and> n \<le> 222 \<and> n \<noteq> 215)
         then char_of (n + 32) else c)"

definition toLowerCase :: "string \<Rightarrow> string" where
  "toLowerCase s = map lower_char s"

definition endsWith :: "string \<Rightarrow> string \<Rightarrow> bool" where
  "endsWith s suffix \<longleftrightarrow> length suffix \<le> length s \<and> drop (length s - length suffix) s = suffix"

definition startsWith :: "string \<Rightarrow> string \<Rightarrow> bool" where
  "startsWith s prefix \<longleftrightarrow> take (length prefix) s = prefix"

fun includes_str :: "string \<Rightarrow> string \<Rightarrow> bool" where
  "includes_str [] needle = (needle = [])"
| "includes_str (c # cs) needle = (startsWith (c # cs) needle \<or> includes_str cs needle)"

section \<open>Canonical keys\<close>

text \<open>
  \<^verbatim>\<open>tname.split(/[.\s-]+/)\<close>: the tokens between maximal runs of separators. A name that
  starts or ends with a separator has an empty first or last token, and the empty name
  has the single token \<open>''''\<close>.
\<close>

function split_name :: "string \<Rightarrow> string list" where
  "split_name s =
     (let tok = takeWhile (\<lambda>c. \<not> is_sep c) s;
          rest = dropWhile (\<lambda>c. \<not> is_sep c) s
      in if rest = [] then [tok] else tok # split_name (dropWhile is_sep rest))"
  by pat_completeness auto
termination
proof (relation "measure length")
  show "wf (measure length)" by simp
next
  fix s :: string and tok rest
  assume rest: "rest = dropWhile (\<lambda>c. \<not> is_sep c) s" and ne: "rest \<noteq> []"
  from ne have "is_sep (hd rest)"
    unfolding rest using hd_dropWhile [of "\<lambda>c. \<not> is_sep c" s] by simp
  with ne have "length (dropWhile is_sep rest) < length rest"
    by (cases rest) (auto simp: le_imp_less_Suc length_dropWhile_le)
  moreover have "length rest \<le> length s"
    unfolding rest by (rule length_dropWhile_le)
  ultimately show "(dropWhile is_sep rest, s) \<in> measure length" by simp
qed

declare split_name.simps [simp del]

definition tokenizeName :: "string \<Rightarrow> string list" where
  "tokenizeName tname = sort (map toLowerCase (split_name tname))"

definition createComparableTorrent :: "string \<Rightarrow> string" where
  "createComparableTorrent x = concat (tokenizeName x)"

section \<open>Extension stripping\<close>

definition slice_to_neg :: "string \<Rightarrow> nat \<Rightarrow> string" where
  \<comment> \<open>\<^verbatim>\<open>name.slice(0, -1 * k)\<close>; for \<open>k = 0\<close> the end index is \<open>-0\<close>, that is 0\<close>
  "slice_to_neg s k = (if k = 0 then [] else take (length s - k) s)"

definition strip_callback :: "string \<Rightarrow> string \<Rightarrow> string option" where
  \<comment> \<open>the arrow function handed to \<^verbatim>\<open>forEach\<close>: its return value, \<open>None\<close> for undefined\<close>
  "strip_callback name extension =
     (if endsWith name extension
      then Some (if endsWith name extension
                 then slice_to_neg name (length extension) else name)
      else None)"

definition forEach :: "('a \<Rightarrow> 'b) \<Rightarrow> 'a list \<Rightarrow> unit" where
  \<comment> \<open>\<^verbatim>\<open>Array.prototype.forEach\<close> calls the callback on each element and discards what it returns\<close>
  "forEach f xs = fold (\<lambda>x u. case f x of _ \<Rightarrow> u) xs ()"

definition removeExtensionsFromName :: "string list \<Rightarrow> string list \<Rightarrow> string \<Rightarrow> string" where
  \<comment> \<open>the two extension tables are constants of another module, taken as parameters;
      \<^verbatim>\<open>name\<close> is never assigned, and the \<^verbatim>\<open>return\<close> inside the callback leaves the callback only\<close>
  "removeExtensionsFromName VIDEO_EXTENSIONS DATA_EXTENSIONS name =
     (let extensionsToRemove = VIDEO_EXTENSIONS @ DATA_EXTENSIONS
      in case forEach (strip_callback name) extensionsToRemove of () \<Rightarrow> name)"

section \<open>Errors and results\<close>

datatype js_error =
    TypeError
  | Error string
  | Rejected string string  \<comment> \<open>a rejection of a library call: the error's name and message\<close>

fun error_name :: "js_error \<Rightarrow> string" where
  "error_name TypeError = ''TypeError''"
| "error_name (Error msg) = ''Error''"
| "error_name (Rejected n msg) = n"

datatype SnatchError = ABORTED | RATE_LIMITED | MAGNET_LINK | INVALID_CONTENTS | UNKNOWN_ERROR

datatype ('a, 'e) Result = Ok 'a | Err 'e

definition resultOf :: "'a \<Rightarrow> ('a, 'e) Result" where
  "resultOf v = Ok v"

definition resultOfErr :: "'e \<Rightarrow> ('a, 'e) Result" where
  "resultOfErr e = Err e"

datatype Metafile = Metafile (meta_infoHash: string) (meta_name: string)

section \<open>Fetching a torrent from a URL\<close>

text \<open>
  What \<^verbatim>\<open>fetch\<close> resolves with: the status, the two headers the function reads, and the
  body. Reading the body (\<^verbatim>\<open>text()\<close>, \<^verbatim>\<open>arrayBuffer()\<close>) happens after the headers have
  arrived and can itself reject, so the body is either a rejection or the content.

  A promise that never settles is the value \<open>None\<close>. This is what reading a clone of the
  response can do: \<^verbatim>\<open>clone()\<close> pipes the body stream into two buffered streams, and a
  pipe forwards neither an error nor an abort of its source, so the read of the clone
  does not reject when the body fails, it stays pending; and since the other side of the
  tee is never read here, the pipe stalls once that side's buffer is full, and the read
  of a body longer than the buffer stays pending as well.
\<close>

record Response =
  status :: nat
  location :: "string option"
  content_type :: "string option"
  body :: "js_error + string"

record fetch_env =
  snatchTimeout :: "nat option"  \<comment> \<open>\<open>Some t\<close> when \<^verbatim>\<open>typeof snatchTimeout === "number"\<close>\<close>
  fetch :: "string \<Rightarrow> js_error + Response"  \<comment> \<open>how the request to a URL settles\<close>
  decode :: "string \<Rightarrow> js_error + Metafile"  \<comment> \<open>\<^verbatim>\<open>Metafile.decode\<close>\<close>
  tee_capacity :: nat  \<comment> \<open>the longest body a clone delivers while the original is not read\<close>

datatype timer_call = SetTimeout nat | Unref | ClearTimeout

definition digit_char :: "nat \<Rightarrow> char" where
  "digit_char d = char_of (48 + d)"

function nat_toString :: "nat \<Rightarrow> string" where
  "nat_toString n = (if n < 10 then [digit_char n] else nat_toString (n div 10) @ [digit_char (n mod 10)])"
  by pat_completeness auto
termination
  by (relation "measure id") auto

declare nat_toString.simps [simp del]

definition ok :: "Response \<Rightarrow> bool" where
  "ok response \<longleftrightarrow> 200 \<le> status response \<and> status response < 300"

definition clone_text :: "fetch_env \<Rightarrow> Response \<Rightarrow> string option" where
  \<comment> \<open>\<^verbatim>\<open>await response.clone().text()\<close>: the text, or \<open>None\<close> when the read never settles\<close>
  "clone_text env response =
     (case body response of
        Inl e \<Rightarrow> None
      | Inr txt \<Rightarrow> if length txt \<le> tee_capacity env then Some txt else None)"

definition parseTorrentFromURL ::
  "fetch_env \<Rightarrow> string \<Rightarrow>
     timer_call list \<times> (js_error + (Metafile, SnatchError) Result) option" where
  \<comment> \<open>the first component lists the calls made on the cancellation timer, the second is how
      the promise settles: \<open>Some (Inl e)\<close> it rejects with \<open>e\<close>, \<open>Some (Inr r)\<close> it resolves
      with the result \<open>r\<close>, \<open>None\<close> it never settles\<close>
  "parseTorrentFromURL env url =
     (let timer_calls = (case snatchTimeout env of Some t \<Rightarrow> [SetTimeout t, Unref] | None \<Rightarrow> [])
      in (timer_calls,
          case fetch env url of
            Inl e \<Rightarrow>
              if error_name e = ''AbortError'' then Some (Inr (resultOfErr ABORTED))
              else Some (Inr (resultOfErr UNKNOWN_ERROR))
          | Inr response \<Rightarrow>
              if startsWith (nat_toString (status response)) ''3'' \<and>
                 (case location response of Some l \<Rightarrow> startsWith l ''magnet:'' | None \<Rightarrow> False)
              then Some (Inr (resultOfErr MAGNET_LINK))
              else if status response = 429 then Some (Inr (resultOfErr RATE_LIMITED))
              else if \<not> ok response then
                (case body response of
                   Inl e \<Rightarrow> Some (Inl e)
                 | Inr txt \<Rightarrow> Some (Inr (resultOfErr UNKNOWN_ERROR)))
              else if content_type response = Some ''application/rss+xml'' then
                (case clone_text env response of
                   None \<Rightarrow> None
                 | Some responseText \<Rightarrow>
                     if includes_str responseText ''429''
                     then Some (Inr (resultOfErr RATE_LIMITED))
                     else Some (Inr (resultOfErr INVALID_CONTENTS)))
              else
                (case body response of
                   Inl e \<Rightarrow> Some (Inr (resultOfErr INVALID_CONTENTS))
                 | Inr bytes \<Rightarrow>
                     (case decode env bytes of
                        Inl e \<Rightarrow> Some (Inr (resultOfErr INVALID_CONTENTS))
                      | Inr meta \<Rightarrow> Some (Inr (resultOf meta))))))"

section \<open>The torrent table\<close>

record torrent_row =
  row_name :: string
  file_path :: string
  info_hash :: string

record TorrentLocator =
  locator_infoHash :: "string option"
  locator_name :: "string option"
  locator_path :: "string option"

record store_env =
  EP_REGEX :: "string \<Rightarrow> string option"
  SEASON_REGEX :: "string \<Rightarrow> string option"
  MOVIE_REGEX :: "string \<Rightarrow> string option"
  GROUP_REGEX :: "string \<Rightarrow> string option"
  VIDEO_EXTENSIONS :: "string list"
  DATA_EXTENSIONS :: "string list"
  torrent_rows :: "torrent_row list"
  sql_like :: "string \<Rightarrow> string \<Rightarrow> bool"
  levenshtein :: real
  parseTorrentFromFilename :: "string \<Rightarrow> js_error + Metafile"
  inspect :: "TorrentLocator \<Rightarrow> string"

text \<open>
  The regular expressions and extension tables are constants of another module and the
  table, the configuration and the file system are outside this file: all are fields of
  \<open>store_env\<close>. A regular expression is the function from a name to element 0 of its match,
  \<open>None\<close> when \<^verbatim>\<open>match\<close> returns null; \<open>sql_like value pattern\<close> is the table's \<^verbatim>\<open>LIKE\<close>;
  \<open>torrent_rows\<close> is the table in the order the store returns rows.
\<close>

definition regex_test :: "(string \<Rightarrow> string option) \<Rightarrow> string \<Rightarrow> bool" where
  "regex_test r s \<longleftrightarrow> r s \<noteq> None"

definition match0 :: "(string \<Rightarrow> string option) \<Rightarrow> string \<Rightarrow> js_error + string" where
  \<comment> \<open>\<^verbatim>\<open>name.match(R)[0]\<close>: indexing null raises a TypeError\<close>
  "match0 r s = (case r s of None \<Rightarrow> Inl TypeError | Some m \<Rightarrow> Inr m)"

definition template_pct :: "js_error + string \<Rightarrow> js_error + string \<Rightarrow> js_error + string" where
  \<comment> \<open>the template literal \<^verbatim>\<open>`${a}%${b}`\<close>, evaluated left to right\<close>
  "template_pct a b =
     (case a of Inl e \<Rightarrow> Inl e
      | Inr x \<Rightarrow> (case b of Inl e \<Rightarrow> Inl e | Inr y \<Rightarrow> Inr (x @ ''%'' @ y)))"

definition searchTerm_of :: "store_env \<Rightarrow> string \<Rightarrow> js_error + string" where
  "searchTerm_of env name =
     (if regex_test (EP_REGEX env) name then
        (if regex_test (GROUP_REGEX env) name
         then template_pct (match0 (EP_REGEX env) name) (match0 (GROUP_REGEX env) name)
         else match0 (EP_REGEX env) name)
      else if regex_test (SEASON_REGEX env) name then
        (if regex_test (GROUP_REGEX env) name
         then template_pct (match0 (SEASON_REGEX env) name) (match0 (GROUP_REGEX env) name)
         else match0 (SEASON_REGEX env) name)
      else if regex_test (GROUP_REGEX env) name
        then template_pct (match0 (MOVIE_REGEX env) name) (match0 (GROUP_REGEX env) name)
        else match0 (MOVIE_REGEX env) name)"

section \<open>Nearest key\<close>

text \<open>
  \<^verbatim>\<open>distance\<close> and \<^verbatim>\<open>closest\<close> of the package fastest-levenshtein: the edit distance, and
  the first element of the array at the least distance; on the empty array \<^verbatim>\<open>closest\<close>
  returns \<^verbatim>\<open>arr[0]\<close>, which is undefined.
\<close>

fun distance :: "string \<Rightarrow> string \<Rightarrow> nat" where
  "distance [] b = length b"
| "distance a [] = length a"
| "distance (x # xs) (y # ys) =
     min (min (distance xs (y # ys) + 1) (distance (x # xs) ys + 1))
         (distance xs ys + (if x = y then 0 else 1))"

fun closest_loop :: "string \<Rightarrow> string list \<Rightarrow> nat \<Rightarrow> nat option \<Rightarrow> nat \<Rightarrow> nat" where
  \<comment> \<open>the loop over the array: index, least distance so far (\<open>None\<close> is Infinity), its index\<close>
  "closest_loop str [] i min_distance min_index = min_index"
| "closest_loop str (a # as) i min_distance min_index =
     (let dist = distance str a
      in if (case min_distance of None \<Rightarrow> True | Some m \<Rightarrow> dist < m)
         then closest_loop str as (i + 1) (Some dist) i
         else closest_loop str as (i + 1) min_distance min_index)"

definition nth_opt :: "'a list \<Rightarrow> nat \<Rightarrow> 'a option" where
  \<comment> \<open>\<^verbatim>\<open>arr[i]\<close>, \<open>None\<close> for undefined\<close>
  "nth_opt arr i = (if i < length arr then Some (arr ! i) else None)"

definition closest :: "string \<Rightarrow> string list \<Rightarrow> string option" where
  "closest str arr = nth_opt arr (closest_loop str arr 0 None 0)"

section \<open>The search map\<close>

text \<open>
  \<^verbatim>\<open>searchMap\<close> is an object used as a dictionary: an association list in creation order.
  Assigning an existing key replaces its value in place; assigning \<^verbatim>\<open>__proto__\<close> sets the
  prototype and creates no key. \<^verbatim>\<open>Object.keys\<close> lists the array-index keys first, in
  numeric order, then the other keys in creation order.
\<close>

definition obj_set :: "(string \<times> 'v) list \<Rightarrow> string \<Rightarrow> 'v \<Rightarrow> (string \<times> 'v) list" where
  "obj_set m k v = (if k = ''__proto__'' then m else AList.update k v m)"

definition is_digit :: "char \<Rightarrow> bool" where
  "is_digit c \<longleftrightarrow> 48 \<le> (of_char c :: nat) \<and> (of_char c :: nat) \<le> 57"

definition digits_value :: "string \<Rightarrow> nat" where
  "digits_value s = foldl (\<lambda>acc c. 10 * acc + (of_char c - 48)) 0 s"

definition is_array_index :: "string \<Rightarrow> bool" where
  "is_array_index k \<longleftrightarrow>
     k \<noteq> [] \<and> list_all is_digit k \<and> (k = ''0'' \<or> hd k \<noteq> CHR ''0'') \<and>
     digits_value k < 2 ^ 32 - 1"

definition object_keys :: "(string \<times> 'v) list \<Rightarrow> string list" where
  "object_keys m =
     sort_key digits_value (filter is_array_index (map fst m)) @
     filter (\<lambda>k. \<not> is_array_index k) (map fst m)"

section \<open>Fuzzy lookup by name\<close>

datatype js_number = Num real | Infinity | NegInfinity | NaN

definition js_divide :: "nat \<Rightarrow> nat \<Rightarrow> js_number" where
  \<comment> \<open>\<^verbatim>\<open>a / b\<close> on two non-negative integers: dividing by zero raises nothing\<close>
  "js_divide a b = (if b = 0 then (if a = 0 then NaN else Infinity) else Num (real a / real b))"

definition similarity_of :: "js_number \<Rightarrow> js_number" where
  \<comment> \<open>\<^verbatim>\<open>100 * (1 - x)\<close>\<close>
  "similarity_of x =
     (case x of Num r \<Rightarrow> Num (100 * (1 - r)) | Infinity \<Rightarrow> NegInfinity
      | NegInfinity \<Rightarrow> Infinity | NaN \<Rightarrow> NaN)"

record log_entry =
  log_distanceMax :: real
  log_match :: string
  log_name :: string
  log_similarityPct :: js_number
  log_distance :: nat

definition build_searchMap :: "store_env \<Rightarrow> torrent_row list \<Rightarrow> (string \<times> torrent_row) list" where
  "build_searchMap env allTorrentNames =
     fold (\<lambda>x searchMap.
             obj_set searchMap
               (createComparableTorrent
                  (removeExtensionsFromName (VIDEO_EXTENSIONS env) (DATA_EXTENSIONS env) (row_name x)))
               x)
          allTorrentNames []"

definition distanceMax_of :: "real \<Rightarrow> nat \<Rightarrow> real" where
  \<comment> \<open>\<^verbatim>\<open>Math.max(levenshtein, Math.min(0.1 * searchTarget.length, 8))\<close>\<close>
  "distanceMax_of threshold len = max threshold (min (0.1 * real len) 8)"

definition getTorrentByFuzzyName ::
  "store_env \<Rightarrow> string \<Rightarrow> log_entry list \<times> (js_error + Metafile option)" where
  \<comment> \<open>the first component is what is logged at verbose level, the second what the promise
      settles with: \<open>Inl\<close> a rejection, \<open>Inr None\<close> null, \<open>Inr (Some m)\<close> a metafile\<close>
  "getTorrentByFuzzyName env name =
     (let searchTarget = createComparableTorrent name
      in case searchTerm_of env name of
           Inl e \<Rightarrow> ([], Inl e)
         | Inr searchTerm \<Rightarrow>
             let allTorrentNames =
                   filter (\<lambda>x. sql_like env (row_name x) searchTerm) (torrent_rows env);
                 searchMap = build_searchMap env allTorrentNames
             in (case closest searchTarget (object_keys searchMap) of
                  None \<Rightarrow> ([], Inl TypeError)
                | Some closestMatch \<Rightarrow>
                    let calcDistanceFrom = distance searchTarget closestMatch;
                        dissimilarityPct = js_divide calcDistanceFrom (length searchTarget);
                        similarityPct = similarity_of dissimilarityPct;
                        distanceMax = distanceMax_of (levenshtein env) (length searchTarget)
                    in if distanceMax \<ge> real calcDistanceFrom - 2 then
                         (case map_of searchMap closestMatch of
                            None \<Rightarrow> ([], Inl TypeError)
                          | Some found \<Rightarrow>
                              let entry = \<lparr>log_distanceMax = distanceMax,
                                           log_match = row_name found, log_name = name,
                                           log_similarityPct = similarityPct,
                                           log_distance = calcDistanceFrom\<rparr>
                              in if distanceMax \<ge> real calcDistanceFrom
                                 then ([entry],
                                       map_sum id Some
                                         (parseTorrentFromFilename env (file_path found)))
                                 else ([entry], Inr None))
                       else ([], Inr None)))"

section \<open>Lookup by criteria\<close>

definition truthy :: "string option \<Rightarrow> bool" where
  \<comment> \<open>\<^verbatim>\<open>if (criteria.f)\<close>: undefined and the empty string are falsy\<close>
  "truthy f \<longleftrightarrow> (case f of None \<Rightarrow> False | Some v \<Rightarrow> v \<noteq> [])"

definition criteria_where :: "TorrentLocator \<Rightarrow> torrent_row \<Rightarrow> bool" where
  \<comment> \<open>the predicate the \<^verbatim>\<open>where\<close> callback builds\<close>
  "criteria_where criteria r \<longleftrightarrow>
     (truthy (locator_infoHash criteria) \<longrightarrow> Some (info_hash r) = locator_infoHash criteria) \<and>
     (truthy (locator_name criteria) \<longrightarrow> Some (row_name r) = locator_name criteria)"

definition getTorrentByCriteria :: "store_env \<Rightarrow> TorrentLocator \<Rightarrow> js_error + Metafile" where
  "getTorrentByCriteria env criteria =
     (case find (criteria_where criteria) (torrent_rows env) of
        None \<Rightarrow>
          Inl (Error (''could not find a torrent with the criteria '' @ inspect env criteria))
      | Some findResult \<Rightarrow> parseTorrentFromFilename env (file_path findResult))"

definition locator_conjunction :: "TorrentLocator \<Rightarrow> torrent_row \<Rightarrow> bool" where
  \<comment> \<open>the lookup predicate as the specification words it: every populated field of the
      locator, the path included, must equal the row's\<close>
  "locator_conjunction criteria r \<longleftrightarrow>
     (case locator_infoHash criteria of None \<Rightarrow> True | Some h \<Rightarrow> info_hash r = h) \<and>
     (case locator_name criteria of None \<Rightarrow> True | Some n \<Rightarrow> row_name r = n) \<and>
     (case locator_path criteria of None \<Rightarrow> True | Some p \<Rightarrow> file_path r = p)"

definition hash_name_conjunction :: "TorrentLocator \<Rightarrow> torrent_row \<Rightarrow> bool" where
  \<comment> \<open>the conjunction over the info hash and the name only, a field counting as populated
      when it holds a non-empty string\<close>
  "hash_name_conjunction criteria r \<longleftrightarrow>
     (case locator_infoHash criteria of
        None \<Rightarrow> True | Some h \<Rightarrow> if h = [] then True else info_hash r = h) \<and>
     (case locator_name criteria of
        None \<Rightarrow> True | Some n \<Rightarrow> if n = [] then True else row_name r = n)"

section \<open>Example inputs\<close>

text \<open>
  Concrete responses, tables and locators on which the theorems below are evaluated. The
  regular expressions of an example store are given as the table of their results on the
  names the example uses, and its \<^verbatim>\<open>LIKE\<close> is the usual one: \<open>%\<close> matches any run of
  characters, \<open>_\<close> any one character, and the letters A to Z match without regard to case.
\<close>

definition unreadable_500 :: Response where
  "unreadable_500 = \<lparr>status = 500, location = None, content_type = None,
     body = Inl (Rejected ''FetchError'' ''premature close'')\<rparr>"

definition aborted_500 :: Response where
  "aborted_500 = \<lparr>status = 500, location = None, content_type = None,
     body = Inl (Rejected ''AbortError'' ''The operation was aborted.'')\<rparr>"

definition aborted_torrent :: Response where
  "aborted_torrent = \<lparr>status = 200, location = None,
     content_type = Some ''application/x-bittorrent'',
     body = Inl (Rejected ''AbortError'' ''The operation was aborted.'')\<rparr>"

definition torrent_200 :: Response where
  "torrent_200 = \<lparr>status = 200, location = None,
     content_type = Some ''application/x-bittorrent'',
     body = Inr ''d4:infod4:name1:aee''\<rparr>"

definition serving :: "Response \<Rightarrow> fetch_env" where
  "serving r = \<lparr>snatchTimeout = Some 1000, fetch = (\<lambda>url. Inr r),
     decode = (\<lambda>bytes. if bytes = ''d4:infod4:name1:aee'' then Inr (Metafile ''h1'' ''a'')
                          else Inl (Error ''invalid torrent'')),
     tee_capacity = 16384\<rparr>"

definition ascii_lower :: "char \<Rightarrow> char" where
  "ascii_lower c =
     (let n = (of_char c :: nat) in if 65 \<le> n \<and> n \<le> 90 then char_of (n + 32) else c)"

fun sql_like_sample :: "string \<Rightarrow> string \<Rightarrow> bool" where
  "sql_like_sample v [] = (v = [])"
| "sql_like_sample [] (p # ps) = (p = CHR ''%'' \<and> sql_like_sample [] ps)"
| "sql_like_sample (c # cs) (p # ps) =
     (if p = CHR ''%'' then sql_like_sample (c # cs) ps \<or> sql_like_sample cs (p # ps)
      else (p = CHR ''_'' \<or> ascii_lower p = ascii_lower c) \<and> sql_like_sample cs ps)"

definition example_store :: "torrent_row list \<Rightarrow> real \<Rightarrow> store_env" where
  "example_store rows threshold =
     \<lparr>EP_REGEX = (\<lambda>n. if n = ''A S1E1-G'' then Some ''A S1E1'' else None),
      SEASON_REGEX = (\<lambda>n. None),
      MOVIE_REGEX = (\<lambda>n. None),
      GROUP_REGEX = (\<lambda>n. if n = ''A S1E1-G'' then Some ''G'' else None),
      VIDEO_EXTENSIONS = [''.mkv''],
      DATA_EXTENSIONS = [''.iso''],
      torrent_rows = rows,
      sql_like = sql_like_sample,
      levenshtein = threshold,
      parseTorrentFromFilename =
        (\<lambda>p. if p = ''/t/1.torrent'' then Inr (Metafile ''h1'' ''A S1E1 x-G'')
             else Inl (Rejected ''Error'' ''ENOENT'')),
      inspect = (\<lambda>c. ''{}'')\<rparr>"

definition row_x :: torrent_row where
  "row_x = \<lparr>row_name = ''A S1E1 x-G'', file_path = ''/t/1.torrent'', info_hash = ''h1''\<rparr>"

definition row_xy :: torrent_row where
  "row_xy = \<lparr>row_name = ''A S1E1 xy-G'', file_path = ''/t/1.torrent'', info_hash = ''h1''\<rparr>"

definition by_hash :: "string \<Rightarrow> TorrentLocator" where
  "by_hash h = \<lparr>locator_infoHash = Some h, locator_name = None, locator_path = None\<rparr>"

definition by_hash_and_path :: TorrentLocator where
  "by_hash_and_path = \<lparr>locator_infoHash = Some ''h1'', locator_name = None,
     locator_path = Some ''/t/2.torrent''\<rparr>"

section \<open>Canonicalization\<close>

lemma of_char_lower_char:
  "(of_char (lower_char c) :: nat) =
     (let n = of_char c
      in if (65 \<le> n \<and> n \<le> 90) \<or> (192 \<le> n \<and> n \<le> 222 \<and> n \<noteq> 215) then n + 32 else n)"
  by (auto simp: lower_char_def Let_def)

lemma lower_char_fixed:
  "\<not> ((65 \<le> (of_char d :: nat) \<and> (of_char d :: nat) \<le> 90) \<or>
      (192 \<le> (of_char d :: nat) \<and> (of_char d :: nat) \<le> 222 \<and> (of_char d :: nat) \<noteq> 215))
   \<Longrightarrow> lower_char d = d"
  unfolding lower_char_def Let_def by (rule if_not_P)

lemma lower_char_idem: "lower_char (lower_char c) = lower_char c"
  by (rule lower_char_fixed) (auto simp: of_char_lower_char Let_def)

lemma is_sep_lower_char: "is_sep (lower_char c) \<longleftrightarrow> is_sep c"
proof -
  have codes: "is_sep d \<longleftrightarrow> (of_char d :: nat) \<in> {46, 45, 9, 10, 11, 12, 13, 32, 160}" for d
  proof -
    have dot: "d = CHR ''.'' \<longleftrightarrow> (of_char d :: nat) = of_char (CHR ''.'')"
      by (metis of_char_eq_iff)
    have hyphen: "d = CHR ''-'' \<longleftrightarrow> (of_char d :: nat) = of_char (CHR ''-'')"
      by (metis of_char_eq_iff)
    show ?thesis unfolding is_sep_def dot hyphen by auto
  qed
  show ?thesis unfolding codes of_char_lower_char by (auto simp: Let_def)
qed

lemma toLowerCase_map: "toLowerCase = map lower_char"
  by (rule ext) (simp add: toLowerCase_def)

lemma split_name_last:
  "dropWhile (\<lambda>c. \<not> is_sep c) s = [] \<Longrightarrow> split_name s = [takeWhile (\<lambda>c. \<not> is_sep c) s]"
  by (subst split_name.simps) (simp only: Let_def, simp)

lemma split_name_more:
  "dropWhile (\<lambda>c. \<not> is_sep c) s \<noteq> [] \<Longrightarrow>
   split_name s = takeWhile (\<lambda>c. \<not> is_sep c) s #
     split_name (dropWhile is_sep (dropWhile (\<lambda>c. \<not> is_sep c) s))"
  by (subst split_name.simps) (simp only: Let_def, simp)

lemma split_name_tokens_sep_free:
  "t \<in> set (split_name s) \<Longrightarrow> c \<in> set t \<Longrightarrow> \<not> is_sep c"
proof (induction s rule: split_name.induct)
  case (1 s)
  show ?case
  proof (cases "dropWhile (\<lambda>c. \<not> is_sep c) s = []")
    case True
    with "1.prems" have "t = takeWhile (\<lambda>c. \<not> is_sep c) s"
      by (simp add: split_name_last)
    with "1.prems"(2) show ?thesis by (auto dest: set_takeWhileD)
  next
    case False
    with "1.prems"(1) have "t = takeWhile (\<lambda>c. \<not> is_sep c) s \<or>
        t \<in> set (split_name (dropWhile is_sep (dropWhile (\<lambda>c. \<not> is_sep c) s)))"
      by (simp add: split_name_more)
    then show ?thesis
    proof
      assume "t = takeWhile (\<lambda>c. \<not> is_sep c) s"
      with "1.prems"(2) show ?thesis by (auto dest: set_takeWhileD)
    next
      assume "t \<in> set (split_name (dropWhile is_sep (dropWhile (\<lambda>c. \<not> is_sep c) s)))"
      with "1.IH" [OF refl refl False] "1.prems"(2) show ?thesis by simp
    qed
  qed
qed

lemma split_name_single: "\<forall>c\<in>set s. \<not> is_sep c \<Longrightarrow> split_name s = [s]"
  by (simp add: split_name_last)

lemma key_sep_free: "c \<in> set (createComparableTorrent x) \<Longrightarrow> \<not> is_sep c"
  by (auto simp: createComparableTorrent_def tokenizeName_def toLowerCase_map is_sep_lower_char
      dest: split_name_tokens_sep_free)

lemma key_lower_case: "toLowerCase (createComparableTorrent x) = createComparableTorrent x"
proof -
  have "map (map lower_char) (sort (map (map lower_char) ts)) = sort (map (map lower_char) ts)"
    for ts
  proof (rule map_idI)
    fix t assume "t \<in> set (sort (map (map lower_char) ts))"
    then obtain u where "t = map lower_char u" by auto
    then show "map lower_char t = t" by (simp add: lower_char_idem)
  qed
  then show ?thesis
    by (simp add: createComparableTorrent_def tokenizeName_def toLowerCase_map map_concat)
qed

lemma key_of_key: "createComparableTorrent (createComparableTorrent x) = createComparableTorrent x"
proof -
  have "split_name (createComparableTorrent x) = [createComparableTorrent x]"
    by (rule split_name_single) (auto dest: key_sep_free)
  then show ?thesis
    by (subst (1) createComparableTorrent_def) (simp add: tokenizeName_def key_lower_case)
qed

lemma key_of_permuted_tokens:
  assumes "mset (split_name a) = mset (split_name b)"
  shows "createComparableTorrent a = createComparableTorrent b"
proof -
  from assms have "mset (map toLowerCase (split_name a)) = mset (map toLowerCase (split_name b))"
    by (metis mset_map)
  then have "sort (map toLowerCase (split_name a)) = sort (map toLowerCase (split_name b))"
    by (metis properties_for_sort sorted_sort mset_sort)
  then show ?thesis by (simp add: createComparableTorrent_def tokenizeName_def)
qed

lemma split_name_example_dots:
  "split_name ''Show.Name.S01E02'' = [''Show'', ''Name'', ''S01E02'']"
  by code_simp

lemma split_name_example_reordered:
  "split_name ''S01E02 - Name Show'' = [''S01E02'', ''Name'', ''Show'']"
  by code_simp

text \<open>
  C5. The canonical key of a canonical key is that key, and two names whose token lists
  (as \<open>split_name\<close> returns them) are permutations of each other have the same
  canonical key.
\<close>

theorem createComparableTorrent_idempotent_order_invariant:
  "createComparableTorrent (createComparableTorrent x) = createComparableTorrent x \<and>
   (mset (split_name y) = mset (split_name x) \<longrightarrow>
      createComparableTorrent y = createComparableTorrent x)"
  using key_of_key [of x] key_of_permuted_tokens [of y x] by blast

theorem createComparableTorrent_idempotent_order_invariant_witness:
  "mset (split_name ''S01E02 - Name Show'') = mset (split_name ''Show.Name.S01E02'') \<and>
   createComparableTorrent ''S01E02 - Name Show'' = createComparableTorrent ''Show.Name.S01E02'' \<and>
   createComparableTorrent (createComparableTorrent ''Show.Name.S01E02'') =
     createComparableTorrent ''Show.Name.S01E02''"
proof -
  have perm: "mset (split_name ''S01E02 - Name Show'') = mset (split_name ''Show.Name.S01E02'')"
    unfolding split_name_example_dots split_name_example_reordered by simp
  from createComparableTorrent_idempotent_order_invariant
         [of "''Show.Name.S01E02''" "''S01E02 - Name Show''"] perm
  show ?thesis by blast
qed

section \<open>Extension stripping leaves the name as it is\<close>

lemma removeExtensionsFromName_unchanged:
  "removeExtensionsFromName video data n = n"
  by (simp add: removeExtensionsFromName_def Let_def split: unit.split)

text \<open>
  C4. The claim is that a stored name ending in a known extension gets the candidate key
  of the name without the extension. The function returns its argument as it is, for
  every extension table: with \<open>''.mkv''\<close> in the table, \<open>''Show.mkv''\<close> keeps its
  extension and gets the key \<open>''mkvshow''\<close>, while \<open>''Show''\<close> gets \<open>''show''\<close>.
\<close>

theorem removeExtensionsFromName_keeps_extension:
  "removeExtensionsFromName video data n = n \<and>
   endsWith ''Show.mkv'' ''.mkv'' \<and>
   removeExtensionsFromName [''.mkv''] [''.iso''] ''Show.mkv'' = ''Show.mkv'' \<and>
   createComparableTorrent (removeExtensionsFromName [''.mkv''] [''.iso''] ''Show.mkv'') =
     ''mkvshow'' \<and>
   createComparableTorrent (removeExtensionsFromName [''.mkv''] [''.iso''] ''Show'') = ''show''"
proof -
  have "endsWith ''Show.mkv'' ''.mkv''" by (simp add: endsWith_def)
  moreover have "createComparableTorrent ''Show.mkv'' = ''mkvshow''" by code_simp
  moreover have "createComparableTorrent ''Show'' = ''show''" by code_simp
  ultimately show ?thesis by (simp add: removeExtensionsFromName_unchanged)
qed

section \<open>Classifying the response\<close>

lemma nat_toString_three_digits:
  assumes "100 \<le> n" "n \<le> 999"
  shows "nat_toString n =
    [digit_char (n div 100), digit_char (n div 10 mod 10), digit_char (n mod 10)]"
proof -
  have n1: "\<not> n < 10" using assms by simp
  have n2: "\<not> n div 10 < 10" using assms by arith
  have n3: "n div 100 < 10" using assms by arith
  have d: "n div 10 div 10 = n div 100" by (simp add: div_mult2_eq)
  have a: "nat_toString n = nat_toString (n div 10) @ [digit_char (n mod 10)]"
    using n1 nat_toString.simps [of n] by simp
  have b: "nat_toString (n div 10) = nat_toString (n div 100) @ [digit_char (n div 10 mod 10)]"
    using n2 nat_toString.simps [of "n div 10"] unfolding d by simp
  have c: "nat_toString (n div 100) = [digit_char (n div 100)]"
    using n3 nat_toString.simps [of "n div 100"] by simp
  show ?thesis unfolding a b c by simp
qed

lemma digit_char_3: "d < 10 \<Longrightarrow> digit_char d = CHR ''3'' \<longleftrightarrow> d = 3"
proof -
  assume "d < 10"
  have "digit_char d = CHR ''3'' \<longleftrightarrow> (of_char (digit_char d) :: nat) = of_char (CHR ''3'')"
    by (metis of_char_eq_iff)
  also have "\<dots> \<longleftrightarrow> d = 3" using \<open>d < 10\<close> by (simp add: digit_char_def)
  finally show ?thesis .
qed

lemma status_leading_3:
  assumes "100 \<le> n" "n \<le> 999"
  shows "startsWith (nat_toString n) ''3'' \<longleftrightarrow> 300 \<le> n \<and> n \<le> 399"
proof -
  have "n div 100 < 10" using assms by simp
  then have "startsWith (nat_toString n) ''3'' \<longleftrightarrow> n div 100 = 3"
    by (simp add: nat_toString_three_digits [OF assms] startsWith_def digit_char_3)
  also have "\<dots> \<longleftrightarrow> 300 \<le> n \<and> n \<le> 399" by auto
  finally show ?thesis .
qed

text \<open>
  How the promise settles once \<^verbatim>\<open>fetch\<close> has resolved with a response of a
  three-digit status: the branches in the order of the source. The branch for a status
  outside 2xx reads the body as text outside any \<^verbatim>\<open>try\<close> and rejects when that read
  rejects; the feed branch reads a clone of the body, a read that delivers the text or
  never settles.
\<close>

lemma parseTorrentFromURL_settled:
  assumes "fetch env url = Inr r" "100 \<le> status r" "status r \<le> 999"
  shows "snd (parseTorrentFromURL env url) =
    (if (300 \<le> status r \<and> status r \<le> 399) \<and>
        (\<exists>l. location r = Some l \<and> startsWith l ''magnet:'')
     then Some (Inr (Err MAGNET_LINK))
     else if status r = 429 then Some (Inr (Err RATE_LIMITED))
     else if \<not> (200 \<le> status r \<and> status r < 300) then
       (case body r of
          Inl e \<Rightarrow> Some (Inl e)
        | Inr txt \<Rightarrow> Some (Inr (Err UNKNOWN_ERROR)))
     else if content_type r = Some ''application/rss+xml'' then
       (case clone_text env r of
          None \<Rightarrow> None
        | Some txt \<Rightarrow>
            if includes_str txt ''429'' then Some (Inr (Err RATE_LIMITED))
            else Some (Inr (Err INVALID_CONTENTS)))
     else
       (case body r of
          Inl e \<Rightarrow> Some (Inr (Err INVALID_CONTENTS))
        | Inr bytes \<Rightarrow>
            (case decode env bytes of
               Inl e \<Rightarrow> Some (Inr (Err INVALID_CONTENTS))
             | Inr m \<Rightarrow> Some (Inr (Ok m)))))"
proof -
  have loc: "(case location r of Some l \<Rightarrow> startsWith l ''magnet:'' | None \<Rightarrow> False) \<longleftrightarrow>
      (\<exists>l. location r = Some l \<and> startsWith l ''magnet:'')"
    by (cases "location r") simp_all
  show ?thesis
    unfolding parseTorrentFromURL_def Let_def snd_conv assms(1) sum.case
      status_leading_3 [OF assms(2,3)] loc ok_def resultOf_def resultOfErr_def
    by (simp split: sum.split option.split)
qed

lemma parseTorrentFromURL_fetch_rejected:
  assumes "fetch env url = Inl e"
  shows "snd (parseTorrentFromURL env url) =
     (if error_name e = ''AbortError'' then Some (Inr (Err ABORTED))
      else Some (Inr (Err UNKNOWN_ERROR)))"
  by (simp add: parseTorrentFromURL_def Let_def assms resultOfErr_def)

text \<open>
  The promise rejects exactly when the read of the body of a response outside 2xx
  rejects, and it never settles exactly when the read of a feed's clone never settles.
\<close>

lemma parseTorrentFromURL_rejects_iff:
  "snd (parseTorrentFromURL env url) = Some (Inl e) \<longleftrightarrow>
     (\<exists>r. fetch env url = Inr r \<and>
        \<not> (startsWith (nat_toString (status r)) ''3'' \<and>
           (case location r of Some l \<Rightarrow> startsWith l ''magnet:'' | None \<Rightarrow> False)) \<and>
        status r \<noteq> 429 \<and> \<not> ok r \<and> body r = Inl e)"
  by (auto simp: parseTorrentFromURL_def Let_def resultOf_def resultOfErr_def
      split: sum.splits option.splits)

lemma parseTorrentFromURL_pending_iff:
  "snd (parseTorrentFromURL env url) = None \<longleftrightarrow>
     (\<exists>r. fetch env url = Inr r \<and>
        \<not> (startsWith (nat_toString (status r)) ''3'' \<and>
           (case location r of Some l \<Rightarrow> startsWith l ''magnet:'' | None \<Rightarrow> False)) \<and>
        status r \<noteq> 429 \<and> ok r \<and> content_type r = Some ''application/rss+xml'' \<and>
        clone_text env r = None)"
  by (auto simp: parseTorrentFromURL_def Let_def resultOf_def resultOfErr_def
      split: sum.splits option.splits)

text \<open>
  C1. The claim is that every settled response with a status outside 2xx (and not a
  magnet redirect or a 429) yields \<open>UNKNOWN_ERROR\<close>. A response of status 500 whose body
  cannot be read makes \<^verbatim>\<open>await response.text()\<close> reject, and the promise rejects with
  that error: no result is returned.
\<close>

theorem parseTorrentFromURL_unreadable_error_page:
  "fetch (serving unreadable_500) ''http://t/1'' = Inr unreadable_500 \<and>
   status unreadable_500 = 500 \<and>
   snd (parseTorrentFromURL (serving unreadable_500) ''http://t/1'') =
     Some (Inl (Rejected ''FetchError'' ''premature close''))"
  by (simp add: parseTorrentFromURL_def serving_def unreadable_500_def ok_def
      nat_toString.simps startsWith_def digit_char_def)

text \<open>
  C8. The claim is that no outcome is thrown and that an abortion by the timer yields
  \<open>ABORTED\<close>. When the timer fires after the headers have arrived, the read of the body
  rejects with an \<^verbatim>\<open>AbortError\<close>. On a response of status 500 that read is
  \<^verbatim>\<open>await response.text()\<close>, outside any \<^verbatim>\<open>try\<close>: the promise rejects with the
  \<^verbatim>\<open>AbortError\<close>. On a response of status 200 that is not a feed the read is inside the
  \<^verbatim>\<open>try\<close> around the decoding, whose \<^verbatim>\<open>catch\<close> returns \<open>INVALID_CONTENTS\<close>.
\<close>

theorem parseTorrentFromURL_abort_during_body:
  "snatchTimeout (serving aborted_500) = Some 1000 \<and>
   fetch (serving aborted_500) ''http://t/1'' = Inr aborted_500 \<and>
   status aborted_500 = 500 \<and>
   body aborted_500 = Inl (Rejected ''AbortError'' ''The operation was aborted.'') \<and>
   snd (parseTorrentFromURL (serving aborted_500) ''http://t/1'') =
     Some (Inl (Rejected ''AbortError'' ''The operation was aborted.'')) \<and>
   fetch (serving aborted_torrent) ''http://t/1'' = Inr aborted_torrent \<and>
   status aborted_torrent = 200 \<and>
   body aborted_torrent = Inl (Rejected ''AbortError'' ''The operation was aborted.'') \<and>
   snd (parseTorrentFromURL (serving aborted_torrent) ''http://t/1'') =
     Some (Inr (Err INVALID_CONTENTS))"
  by (simp add: parseTorrentFromURL_def serving_def aborted_500_def aborted_torrent_def ok_def
      nat_toString.simps startsWith_def digit_char_def resultOfErr_def)

section \<open>The cancellation timer\<close>

text \<open>
  C9, as stated, fails: with a timeout of 1000 ms configured and a torrent served with
  status 200, the call returns the metafile and the only calls made on the timer are
  \<^verbatim>\<open>setTimeout\<close> and \<^verbatim>\<open>unref\<close>; the timer is not cancelled.
\<close>

theorem parseTorrentFromURL_timer_left_armed:
  "snatchTimeout (serving torrent_200) = Some 1000 \<and>
   snd (parseTorrentFromURL (serving torrent_200) ''http://t/1'') =
     Some (Inr (Ok (Metafile ''h1'' ''a''))) \<and>
   fst (parseTorrentFromURL (serving torrent_200) ''http://t/1'') = [SetTimeout 1000, Unref] \<and>
   ClearTimeout \<notin> set (fst (parseTorrentFromURL (serving torrent_200) ''http://t/1''))"
  by (simp add: parseTorrentFromURL_def serving_def torrent_200_def ok_def
      nat_toString.simps startsWith_def digit_char_def resultOf_def)

text \<open>
  C9, amended. On every path the calls made on the timer are \<^verbatim>\<open>setTimeout\<close> followed by
  \<^verbatim>\<open>unref\<close> when a timeout is configured and none otherwise: the timer is never
  cancelled by the function.
\<close>

theorem parseTorrentFromURL_never_clears_timer:
  "fst (parseTorrentFromURL env url) =
     (case snatchTimeout env of Some t \<Rightarrow> [SetTimeout t, Unref] | None \<Rightarrow> []) \<and>
   ClearTimeout \<notin> set (fst (parseTorrentFromURL env url))"
  by (simp add: parseTorrentFromURL_def Let_def split: option.split)

theorem parseTorrentFromURL_never_clears_timer_witness:
  "fst (parseTorrentFromURL (serving torrent_200) ''http://t/2'') = [SetTimeout 1000, Unref]"
  using parseTorrentFromURL_never_clears_timer [of "serving torrent_200" "''http://t/2''"]
  by (simp add: serving_def)

section \<open>The nearest key\<close>

lemma closest_loop_least:
  assumes "(md = None \<and> mi = 0 \<and> pre = []) \<or>
           (mi < length pre \<and> md = Some (distance str (pre ! mi)) \<and>
            (\<forall>a\<in>set pre. distance str (pre ! mi) \<le> distance str a))"
  shows "(pre @ rest = [] \<and> closest_loop str rest (length pre) md mi = 0) \<or>
         (closest_loop str rest (length pre) md mi < length (pre @ rest) \<and>
          (\<forall>a\<in>set (pre @ rest).
             distance str ((pre @ rest) ! closest_loop str rest (length pre) md mi)
               \<le> distance str a))"
  using assms
proof (induction rest arbitrary: pre md mi)
  case Nil
  then show ?case by auto
next
  case (Cons a rest)
  let ?better = "case md of None \<Rightarrow> True | Some m \<Rightarrow> distance str a < m"
  have shift: "(pre @ [a]) @ rest = pre @ a # rest" by simp
  show ?case
  proof (cases ?better)
    case True
    have inv: "(Some (distance str a) = None \<and> length pre = 0 \<and> pre @ [a] = []) \<or>
        (length pre < length (pre @ [a]) \<and>
         Some (distance str a) = Some (distance str ((pre @ [a]) ! length pre)) \<and>
         (\<forall>b\<in>set (pre @ [a]). distance str ((pre @ [a]) ! length pre) \<le> distance str b))"
      using Cons.prems True by (auto simp: nth_append)
    have step: "closest_loop str (a # rest) (length pre) md mi =
        closest_loop str rest (length (pre @ [a])) (Some (distance str a)) (length pre)"
      using True by (simp add: Let_def)
    show ?thesis
      using Cons.IH [OF inv] unfolding step shift .
  next
    case False
    then obtain m where md: "md = Some m" and notless: "\<not> distance str a < m"
      by (cases md) auto
    with Cons.prems have old: "mi < length pre" "m = distance str (pre ! mi)"
        "\<forall>b\<in>set pre. distance str (pre ! mi) \<le> distance str b"
      by auto
    have inv: "(md = None \<and> mi = 0 \<and> pre @ [a] = []) \<or>
        (mi < length (pre @ [a]) \<and> md = Some (distance str ((pre @ [a]) ! mi)) \<and>
         (\<forall>b\<in>set (pre @ [a]). distance str ((pre @ [a]) ! mi) \<le> distance str b))"
      using old md notless by (auto simp: nth_append)
    have step: "closest_loop str (a # rest) (length pre) md mi =
        closest_loop str rest (length (pre @ [a])) md mi"
      using md notless by (simp add: Let_def)
    show ?thesis
      using Cons.IH [OF inv] unfolding step shift .
  qed
qed

lemma closest_empty: "closest str [] = None"
  by (simp add: closest_def nth_opt_def)

lemma closest_nearest:
  assumes "closest str arr = Some k"
  shows "k \<in> set arr \<and> (\<forall>a\<in>set arr. distance str k \<le> distance str a)"
proof -
  from closest_loop_least [where md = None and mi = 0 and pre = "[]" and str = str and rest = arr]
  have "(arr = [] \<and> closest_loop str arr 0 None 0 = 0) \<or>
        (closest_loop str arr 0 None 0 < length arr \<and>
         (\<forall>a\<in>set arr. distance str (arr ! closest_loop str arr 0 None 0) \<le> distance str a))"
    by simp
  with assms show ?thesis
    by (auto simp: closest_def nth_opt_def split: if_splits)
qed

lemma set_object_keys: "set (object_keys m) = fst ` set m"
  by (auto simp: object_keys_def)

section \<open>Acceptance of the nearest candidate\<close>

lemma getTorrentByFuzzyName_nearest:
  assumes "searchTerm_of env name = Inr searchTerm"
    and "searchMap = build_searchMap env
           (filter (\<lambda>x. sql_like env (row_name x) searchTerm) (torrent_rows env))"
    and "closest (createComparableTorrent name) (object_keys searchMap) = Some closestMatch"
  shows "\<exists>found. map_of searchMap closestMatch = Some found \<and>
     snd (getTorrentByFuzzyName env name) =
       (if real (distance (createComparableTorrent name) closestMatch)
             \<le> distanceMax_of (levenshtein env) (length (createComparableTorrent name))
        then map_sum id Some (parseTorrentFromFilename env (file_path found))
        else Inr None)"
proof -
  from closest_nearest [OF assms(3)] have "closestMatch \<in> fst ` set searchMap"
    by (simp add: set_object_keys)
  then obtain found where found: "map_of searchMap closestMatch = Some found"
    by (metis map_of_eq_None_iff not_Some_eq)
  have "snd (getTorrentByFuzzyName env name) =
       (if real (distance (createComparableTorrent name) closestMatch)
             \<le> distanceMax_of (levenshtein env) (length (createComparableTorrent name))
        then map_sum id Some (parseTorrentFromFilename env (file_path found))
        else Inr None)"
    using assms(1) assms(3) found unfolding assms(2)
    by (simp add: getTorrentByFuzzyName_def Let_def)
  with found show ?thesis by blast
qed

lemma map_sum_Some_not_null: "map_sum id Some x \<noteq> Inr None"
  by (cases x) simp_all

text \<open>
  C2. Once a search term is extracted and the nearest candidate key \<open>closestMatch\<close> is at
  distance \<open>d\<close> from the target key, with \<open>cap\<close> the maximum of the configured threshold
  and the minimum of a tenth of the target key's length and 8: the function's ceiling is
  \<open>cap\<close>, \<open>d\<close> is the least distance over all candidate keys, and the candidate's file is
  parsed and returned exactly when \<open>d \<le> cap\<close> and null is returned otherwise; so a
  distance equal to \<open>cap\<close> is accepted and a distance of \<open>cap + 1\<close> is rejected.
  Numbers are reals: rounding \<^verbatim>\<open>0.1 * length\<close> to a double does not change its comparison
  with an integer distance.
\<close>

theorem getTorrentByFuzzyName_acceptance:
  assumes "searchTerm_of env name = Inr searchTerm"
    and "searchMap = build_searchMap env
           (filter (\<lambda>x. sql_like env (row_name x) searchTerm) (torrent_rows env))"
    and "closest (createComparableTorrent name) (object_keys searchMap) = Some closestMatch"
    and "d = distance (createComparableTorrent name) closestMatch"
    and "cap = max (levenshtein env) (min (0.1 * real (length (createComparableTorrent name))) 8)"
  shows "distanceMax_of (levenshtein env) (length (createComparableTorrent name)) = cap \<and>
    (\<forall>k\<in>set (object_keys searchMap). d \<le> distance (createComparableTorrent name) k) \<and>
    (\<exists>found. map_of searchMap closestMatch = Some found \<and>
       snd (getTorrentByFuzzyName env name) =
         (if real d \<le> cap
          then map_sum id Some (parseTorrentFromFilename env (file_path found))
          else Inr None)) \<and>
    (real d = cap \<longrightarrow> snd (getTorrentByFuzzyName env name) \<noteq> Inr None) \<and>
    (real d = cap + 1 \<longrightarrow> snd (getTorrentByFuzzyName env name) = Inr None)"
proof -
  have cap: "distanceMax_of (levenshtein env) (length (createComparableTorrent name)) = cap"
    by (simp add: distanceMax_of_def assms(5))
  have least: "\<forall>k\<in>set (object_keys searchMap). d \<le> distance (createComparableTorrent name) k"
    using closest_nearest [OF assms(3)] by (simp add: assms(4))
  from getTorrentByFuzzyName_nearest [OF assms(1,2,3)]
  obtain found where found: "map_of searchMap closestMatch = Some found"
    and res: "snd (getTorrentByFuzzyName env name) =
         (if real d \<le> cap
          then map_sum id Some (parseTorrentFromFilename env (file_path found))
          else Inr None)"
    unfolding cap assms(4) by blast
  have at_cap: "real d = cap \<longrightarrow> snd (getTorrentByFuzzyName env name) \<noteq> Inr None"
    by (simp add: res map_sum_Some_not_null)
  have above: "real d = cap + 1 \<longrightarrow> snd (getTorrentByFuzzyName env name) = Inr None"
    by (simp add: res)
  from cap least found res at_cap above show ?thesis by blast
qed

lemma key_row_x: "createComparableTorrent ''A S1E1 x-G'' = ''ags1e1x''"
  by code_simp

lemma key_row_xy: "createComparableTorrent ''A S1E1 xy-G'' = ''ags1e1xy''"
  by code_simp

lemma key_target: "createComparableTorrent ''A S1E1-G'' = ''ags1e1''"
  by code_simp

lemma distance_row_x: "distance ''ags1e1'' ''ags1e1x'' = 1"
  by code_simp

lemma distance_row_xy: "distance ''ags1e1'' ''ags1e1xy'' = 2"
  by code_simp

lemma like_row_x: "sql_like_sample ''A S1E1 x-G'' ''A S1E1%G''"
  by code_simp

lemma like_row_xy: "sql_like_sample ''A S1E1 xy-G'' ''A S1E1%G''"
  by code_simp

lemma searchTerm_example:
  "searchTerm_of (example_store rows t) ''A S1E1-G'' = Inr ''A S1E1%G''"
  by (simp add: searchTerm_of_def example_store_def regex_test_def match0_def template_pct_def)

lemma searchMap_row_x:
  "build_searchMap (example_store [row_x] t)
     (filter (\<lambda>x. sql_like (example_store [row_x] t) (row_name x) ''A S1E1%G'')
        (torrent_rows (example_store [row_x] t))) = [(''ags1e1x'', row_x)]"
  by (simp add: example_store_def build_searchMap_def obj_set_def row_x_def like_row_x
      removeExtensionsFromName_unchanged key_row_x)

lemma searchMap_row_xy:
  "build_searchMap (example_store [row_xy] t)
     (filter (\<lambda>x. sql_like (example_store [row_xy] t) (row_name x) ''A S1E1%G'')
        (torrent_rows (example_store [row_xy] t))) = [(''ags1e1xy'', row_xy)]"
  by (simp add: example_store_def build_searchMap_def obj_set_def row_xy_def like_row_xy
      removeExtensionsFromName_unchanged key_row_xy)

lemma closest_single: "closest str [k] = Some k"
  by (simp add: closest_def nth_opt_def Let_def)

lemma keys_single_word:
  "\<not> is_array_index k \<Longrightarrow> object_keys [(k, v)] = [k]"
  by (simp add: object_keys_def)

lemma not_index_row_x: "\<not> is_array_index ''ags1e1x''"
  by (simp add: is_array_index_def is_digit_def)

lemma not_index_row_xy: "\<not> is_array_index ''ags1e1xy''"
  by (simp add: is_array_index_def is_digit_def)

theorem getTorrentByFuzzyName_acceptance_witness:
  "snd (getTorrentByFuzzyName (example_store [row_x] 1) ''A S1E1-G'') =
     Inr (Some (Metafile ''h1'' ''A S1E1 x-G'')) \<and>
   snd (getTorrentByFuzzyName (example_store [row_xy] 1) ''A S1E1-G'') = Inr None"
proof -
  have cap: "(1::real) = max (levenshtein (example_store rows 1))
      (min (0.1 * real (length (createComparableTorrent ''A S1E1-G''))) 8)" for rows
    by (simp add: example_store_def key_target)
  have near_x: "closest (createComparableTorrent ''A S1E1-G'')
      (object_keys [(''ags1e1x'', row_x)]) = Some ''ags1e1x''"
    by (simp only: keys_single_word [OF not_index_row_x] closest_single)
  have near_xy: "closest (createComparableTorrent ''A S1E1-G'')
      (object_keys [(''ags1e1xy'', row_xy)]) = Some ''ags1e1xy''"
    by (simp only: keys_single_word [OF not_index_row_xy] closest_single)
  have dx: "(1::nat) = distance (createComparableTorrent ''A S1E1-G'') ''ags1e1x''"
    by (simp only: key_target distance_row_x)
  have dxy: "(2::nat) = distance (createComparableTorrent ''A S1E1-G'') ''ags1e1xy''"
    by (simp only: key_target distance_row_xy)
  from getTorrentByFuzzyName_acceptance
         [OF searchTerm_example searchMap_row_x [symmetric] near_x dx cap]
  have "snd (getTorrentByFuzzyName (example_store [row_x] 1) ''A S1E1-G'') =
     Inr (Some (Metafile ''h1'' ''A S1E1 x-G''))"
    by (simp add: row_x_def example_store_def)
  moreover
  from getTorrentByFuzzyName_acceptance
         [OF searchTerm_example searchMap_row_xy [symmetric] near_xy dxy cap]
  have "snd (getTorrentByFuzzyName (example_store [row_xy] 1) ''A S1E1-G'') = Inr None"
    by simp
  ultimately show ?thesis by blast
qed

section \<open>Names and tables the lookup does not handle\<close>

text \<open>
  C10. A name on which the episode, the season and the movie pattern all fail to match
  makes the function raise a TypeError (element 0 of a null match), whether or not the
  group pattern matches: nothing is queried and null is not returned.
\<close>

theorem getTorrentByFuzzyName_no_pattern_raises:
  assumes "EP_REGEX env name = None" "SEASON_REGEX env name = None" "MOVIE_REGEX env name = None"
  shows "getTorrentByFuzzyName env name = ([], Inl TypeError)"
  using assms
  by (simp add: getTorrentByFuzzyName_def searchTerm_of_def regex_test_def match0_def
      template_pct_def Let_def)

theorem getTorrentByFuzzyName_no_pattern_raises_witness:
  "getTorrentByFuzzyName (example_store [row_x] 1) ''Some Name'' = ([], Inl TypeError)"
proof -
  have "EP_REGEX (example_store [row_x] 1) ''Some Name'' = None"
       "SEASON_REGEX (example_store [row_x] 1) ''Some Name'' = None"
       "MOVIE_REGEX (example_store [row_x] 1) ''Some Name'' = None"
    by (simp_all add: example_store_def)
  then show ?thesis by (rule getTorrentByFuzzyName_no_pattern_raises)
qed

text \<open>
  C3. The claim is that an empty result of the pattern query makes the function return
  null. With no row, \<^verbatim>\<open>Object.keys(searchMap)\<close> is empty, \<^verbatim>\<open>closest\<close> returns undefined
  and \<^verbatim>\<open>distance\<close> reads the length of undefined: the function raises a TypeError.
\<close>

theorem getTorrentByFuzzyName_no_candidates_raises:
  assumes "searchTerm_of env name = Inr searchTerm"
    and "filter (\<lambda>x. sql_like env (row_name x) searchTerm) (torrent_rows env) = []"
  shows "getTorrentByFuzzyName env name = ([], Inl TypeError)"
  using assms
  by (simp add: getTorrentByFuzzyName_def Let_def build_searchMap_def object_keys_def
      closest_empty)

theorem getTorrentByFuzzyName_no_candidates_raises_witness:
  "searchTerm_of (example_store [] 1) ''A S1E1-G'' = Inr ''A S1E1%G'' \<and>
   getTorrentByFuzzyName (example_store [] 1) ''A S1E1-G'' = ([], Inl TypeError)"
proof -
  have "filter (\<lambda>x. sql_like (example_store [] 1) (row_name x) ''A S1E1%G'')
          (torrent_rows (example_store [] 1)) = []"
    by (simp add: example_store_def)
  from getTorrentByFuzzyName_no_candidates_raises [OF searchTerm_example this]
  show ?thesis by (simp add: searchTerm_example)
qed

text \<open>
  No branch of the function tests the length of the target key. When the target key is
  empty and the flow reaches the nearest candidate, the distance is the length of that
  candidate's key, the ceiling is the maximum of the configured threshold and 0, and the
  quotient of the distance by the length 0 is Infinity or NaN.
\<close>

lemma getTorrentByFuzzyName_empty_target:
  assumes "createComparableTorrent name = []"
    and "searchTerm_of env name = Inr searchTerm"
    and "searchMap = build_searchMap env
           (filter (\<lambda>x. sql_like env (row_name x) searchTerm) (torrent_rows env))"
    and "closest (createComparableTorrent name) (object_keys searchMap) = Some closestMatch"
  shows "\<exists>found. map_of searchMap closestMatch = Some found \<and>
     snd (getTorrentByFuzzyName env name) =
       (if real (length closestMatch) \<le> max (levenshtein env) 0
        then map_sum id Some (parseTorrentFromFilename env (file_path found))
        else Inr None)"
  using getTorrentByFuzzyName_nearest [OF assms(2,3,4)]
  by (simp add: assms(1) distanceMax_of_def)

lemma js_divide_by_zero: "js_divide a 0 = (if a = 0 then NaN else Infinity)"
  by (simp add: js_divide_def)

text \<open>
  C6. The claim is that a name whose target key is empty makes the function return null.
  The empty name has the empty target key and matches no pattern; the function raises a
  TypeError before it queries the table.
\<close>

theorem getTorrentByFuzzyName_empty_key_raises:
  "length (createComparableTorrent '''') = 0 \<and>
   EP_REGEX (example_store [row_x] 1) '''' = None \<and>
   SEASON_REGEX (example_store [row_x] 1) '''' = None \<and>
   MOVIE_REGEX (example_store [row_x] 1) '''' = None \<and>
   getTorrentByFuzzyName (example_store [row_x] 1) '''' = ([], Inl TypeError)"
proof -
  have "createComparableTorrent '''' = ''''" by code_simp
  then show ?thesis
    by (simp add: getTorrentByFuzzyName_def searchTerm_of_def regex_test_def match0_def
        template_pct_def Let_def example_store_def)
qed

section \<open>Lookup by criteria\<close>

lemma find_filter_first:
  "find P xs = (case filter P xs of [] \<Rightarrow> None | x # rest \<Rightarrow> Some x)"
  by (induction xs) simp_all

lemma criteria_where_hash_name: "criteria_where c = hash_name_conjunction c"
  by (rule ext)
     (auto simp: criteria_where_def hash_name_conjunction_def truthy_def split: option.splits)

text \<open>
  C7, as stated, fails: a locator with the info hash \<open>''h1''\<close> and the path
  \<open>''/t/2.torrent''\<close> is satisfied by no row of a table whose only row has that hash and
  the path \<open>''/t/1.torrent''\<close>, and the function returns that row's metafile.
\<close>

theorem getTorrentByCriteria_ignores_path:
  "filter (locator_conjunction by_hash_and_path) (torrent_rows (example_store [row_x] 1)) = [] \<and>
   getTorrentByCriteria (example_store [row_x] 1) by_hash_and_path =
     Inr (Metafile ''h1'' ''A S1E1 x-G'')"
  by (simp add: locator_conjunction_def by_hash_and_path_def example_store_def row_x_def
      getTorrentByCriteria_def criteria_where_def truthy_def)

text \<open>
  C7, amended. The lookup predicate is the conjunction of the info hash and the name, each
  taken into account when it holds a non-empty string; the path is not consulted. When no
  row of the table satisfies it the function raises the error built from the criteria;
  otherwise it returns what parsing the file of the first such row gives.
\<close>

theorem getTorrentByCriteria_hash_and_name:
  "(filter (hash_name_conjunction c) (torrent_rows env) = [] \<longrightarrow>
      getTorrentByCriteria env c =
        Inl (Error (''could not find a torrent with the criteria '' @ inspect env c))) \<and>
   (\<forall>r rest. filter (hash_name_conjunction c) (torrent_rows env) = r # rest \<longrightarrow>
      getTorrentByCriteria env c = parseTorrentFromFilename env (file_path r))"
  by (simp add: getTorrentByCriteria_def find_filter_first criteria_where_hash_name)

theorem getTorrentByCriteria_hash_and_name_witness:
  "getTorrentByCriteria (example_store [row_x] 1) (by_hash ''h1'') =
     Inr (Metafile ''h1'' ''A S1E1 x-G'') \<and>
   getTorrentByCriteria (example_store [row_x] 1) (by_hash ''h2'') =
     Inl (Error (''could not find a torrent with the criteria {}''))"
proof -
  have hit: "filter (hash_name_conjunction (by_hash ''h1''))
      (torrent_rows (example_store [row_x] 1)) = row_x # []"
    by (simp add: hash_name_conjunction_def by_hash_def example_store_def row_x_def)
  have miss: "filter (hash_name_conjunction (by_hash ''h2''))
      (torrent_rows (example_store [row_x] 1)) = []"
    by (simp add: hash_name_conjunction_def by_hash_def example_store_def row_x_def)
  from getTorrentByCriteria_hash_and_name [of "by_hash ''h1''" "example_store [row_x] 1"] hit
  have "getTorrentByCriteria (example_store [row_x] 1) (by_hash ''h1'') =
      parseTorrentFromFilename (example_store [row_x] 1) (file_path row_x)"
    by blast
  moreover
  from getTorrentByCriteria_hash_and_name [of "by_hash ''h2''" "example_store [row_x] 1"] miss
  have "getTorrentByCriteria (example_store [row_x] 1) (by_hash ''h2'') =
      Inl (Error (''could not find a torrent with the criteria '' @
                   inspect (example_store [row_x] 1) (by_hash ''h2'')))"
    by blast
  ultimately show ?thesis by (simp add: example_store_def row_x_def)
qed

end
